theory Spec2Isabelle
  imports Main
begin

section \<open>Beeftext: update manager and global path helpers\<close>

text \<open>
  The development embeds two translation units of Beeftext: the software update manager
  (\<open>UpdateManager\<close>: a single-shot timer, a worker thread per check, three outcome slots and
  a completion slot) and the project globals (\<open>globals::clipboardManager\<close>,
  \<open>globals::backupFolderPath\<close> and the other path helpers).

  Every slot of the C++ class is a function on an explicit record of the manager's state.
  The calls the source makes on Qt objects (timer, threads, signals, preferences) are both
  applied to that state and appended, in program order, to a trace of actions, so that
  statements about ordering are statements about a list.
\<close>

subsection \<open>Qt values used by the update manager\<close>

text \<open>
  Machine integers are values of \<open>int\<close> with the wrap-around written out. \<open>to_qint64\<close>
  reduces a value to the range of the signed 64-bit \<open>qint64\<close>. \<open>to_int32\<close> is the implicit
  conversion of a \<open>qint64\<close> argument to the 32-bit \<open>int\<close> parameter of \<open>QTimer::start(int msec)\<close>:
  the value modulo \<open>2^32\<close>, read as a signed number.
\<close>

definition to_qint64 :: "int \<Rightarrow> int" where
  "to_qint64 x = (x + 2 ^ 63) mod 2 ^ 64 - 2 ^ 63"

definition to_int32 :: "int \<Rightarrow> int" where
  "to_int32 x = (x + 2 ^ 31) mod 2 ^ 32 - 2 ^ 31"

text \<open>
  A \<open>QDateTime\<close> held by the preference is either null (never checked) or a point in time,
  represented by its milliseconds since the epoch, which Qt keeps in a \<open>qint64\<close>.
  \<open>addMSecs\<close> and \<open>msecsTo\<close> follow the Qt documentation: adding to a datetime that is not
  valid yields one that is not valid, and \<open>msecsTo\<close> is the signed difference, 0 when either
  side is not valid. Both results are \<open>qint64\<close> values and are reduced to that range.
\<close>

datatype QDateTime = NullDateTime | DateTime int

fun isNull :: "QDateTime \<Rightarrow> bool" where
  "isNull NullDateTime = True"
| "isNull (DateTime t) = False"

fun addMSecs :: "QDateTime \<Rightarrow> int \<Rightarrow> QDateTime" where
  "addMSecs NullDateTime ms = NullDateTime"
| "addMSecs (DateTime t) ms = DateTime (to_qint64 (t + ms))"

fun msecsTo :: "QDateTime \<Rightarrow> QDateTime \<Rightarrow> int" where
  "msecsTo (DateTime a) (DateTime b) = to_qint64 (b - a)"
| "msecsTo a b = 0"

text \<open>\<open>qMax<qint64>(a, b)\<close> is \<open>(a < b) ? b : a\<close>.\<close>

definition qMax :: "int \<Rightarrow> int \<Rightarrow> int" where
  "qMax a b = (if a < b then b else a)"

text \<open>The two constants of the anonymous namespace.\<close>

definition kLaunchCheckDelayMs :: int where
  "kLaunchCheckDelayMs = 1000"

definition kUpdateCheckIntervalMs :: int where
  "kUpdateCheckIntervalMs = 1000 * 60 * 60 * 24"

subsection \<open>State of the update manager\<close>

text \<open>
  \<open>LatestVersionInfo\<close> is read through \<open>versionMajor()\<close> and \<open>versionMinor()\<close> only;
  \<open>SpLatestVersionInfo\<close> is a shared pointer, so it may be null (\<open>None\<close>).
\<close>

record LatestVersionInfo =
  versionMajor :: int
  versionMinor :: int

type_synonym SpLatestVersionInfo = "LatestVersionInfo option"

text \<open>The signals the manager emits.\<close>

datatype signal =
    startedUpdateCheck
  | finishedUpdateCheck
  | updateIsAvailable LatestVersionInfo
  | noUpdateIsAvailable
  | updateCheckFailed

text \<open>
  The calls on collaborators, in the order the source makes them. A check allocates one
  \<open>QThread\<close> and one \<open>UpdateCheckWorker\<close> moved to it; the pair is named by one number, so
  \<open>worker->thread()\<close> of worker \<open>w\<close> is thread \<open>w\<close>.
\<close>

datatype action =
    TimerStop
  | TimerStart int
  | Emit signal
  | ThreadStart nat
  | ThreadQuit nat
  | ThreadWait nat
  | DeleteWorker nat
  | ThreadDeleteLater nat
  | SetLastUpdateCheckDateTime int
  | DebugLogAddInfo int int
  | UpdateDialogExec LatestVersionInfo

text \<open>
  \<open>timer\<close> (the member \<open>timer_\<close>) is \<open>None\<close> while the \<open>QTimer\<close> is inactive and
  \<open>Some msec\<close> while it is armed, \<open>msec\<close> being the 32-bit \<open>int\<close> that \<open>QTimer::start\<close>
  received. \<open>lastUpdateCheckDateTime\<close> is the preference read and written through \<open>PreferencesManager\<close>. \<open>workers\<close> and \<open>threads\<close> are the live
  \<open>UpdateCheckWorker\<close> and \<open>QThread\<close> objects, \<open>deferredDelete\<close> the objects on which
  \<open>deleteLater()\<close> was called and that the event loop has not destroyed yet, \<open>nextId\<close> the
  allocation counter and \<open>actions\<close> the trace.
\<close>

record UpdateManager =
  timer :: "int option"
  singleShot :: bool
  lastUpdateCheckDateTime :: QDateTime
  workers :: "nat list"
  threads :: "nat list"
  deferredDelete :: "nat list"
  nextId :: nat
  actions :: "action list"

text \<open>
  \<open>xmilib::Exception\<close>: the two messages thrown in this file. A slot that throws returns
  \<open>Inl\<close> with the exception and the state reached at the \<open>throw\<close>.
\<close>

datatype exception =
    InternalErrorWhileChecking
  | LatestVersionInfoIsNull

type_synonym slot_result = "(exception \<times> UpdateManager) + UpdateManager"

subsection \<open>Timer and signal primitives\<close>

definition timer_stop :: "UpdateManager \<Rightarrow> UpdateManager" where
  "timer_stop s = s\<lparr>timer := None, actions := actions s @ [TimerStop]\<rparr>"

text \<open>
  \<open>timer_.start(ms)\<close>: both call sites pass a \<open>qint64\<close>, which the call converts to the
  \<open>int\<close> parameter of \<open>QTimer::start\<close>.
\<close>

definition timer_start :: "int \<Rightarrow> UpdateManager \<Rightarrow> UpdateManager" where
  "timer_start ms s =
     (let msec = to_int32 ms in
      s\<lparr>timer := Some msec, actions := actions s @ [TimerStart msec]\<rparr>)"

definition emit :: "signal \<Rightarrow> UpdateManager \<Rightarrow> UpdateManager" where
  "emit sg s = s\<lparr>actions := actions s @ [Emit sg]\<rparr>"

definition isActive :: "UpdateManager \<Rightarrow> bool" where
  "isActive s = (timer s \<noteq> None)"

subsection \<open>The slots of \<open>UpdateManager\<close>\<close>

text \<open>
  \<open>onAutoCheckForUpdateChanged(enabled)\<close>; \<open>now\<close> is the value of
  \<open>QDateTime::currentDateTime()\<close> at the call.
\<close>

definition msSecsToNextCheck :: "QDateTime \<Rightarrow> int \<Rightarrow> int" where
  "msSecsToNextCheck lastCheckDateTime now =
     (if isNull lastCheckDateTime then kLaunchCheckDelayMs
      else qMax kLaunchCheckDelayMs
             (msecsTo (DateTime now) (addMSecs lastCheckDateTime kUpdateCheckIntervalMs)))"

definition onAutoCheckForUpdateChanged :: "bool \<Rightarrow> int \<Rightarrow> UpdateManager \<Rightarrow> UpdateManager" where
  "onAutoCheckForUpdateChanged enabled now s =
     (let s1 = timer_stop s in
      if \<not> enabled then s1
      else timer_start (msSecsToNextCheck (lastUpdateCheckDateTime s1) now) s1)"

text \<open>
  The constructor: a default-constructed, inactive timer set to single shot, no worker, and
  the handler run once on the current value of the preference. Its arguments are the two
  preference values it reads and the current time.
\<close>

definition constructed :: "QDateTime \<Rightarrow> UpdateManager" where
  "constructed lastCheck =
     \<lparr>timer = None, singleShot = True, lastUpdateCheckDateTime = lastCheck,
      workers = [], threads = [], deferredDelete = [], nextId = 0, actions = []\<rparr>"

definition UpdateManager_ctor :: "bool \<Rightarrow> QDateTime \<Rightarrow> int \<Rightarrow> UpdateManager" where
  "UpdateManager_ctor autoCheckForUpdates lastCheck now =
     onAutoCheckForUpdateChanged autoCheckForUpdates now (constructed lastCheck)"

text \<open>\<open>startUpdateCheckWorker()\<close> and \<open>checkForUpdate()\<close>.\<close>

definition startUpdateCheckWorker :: "UpdateManager \<Rightarrow> UpdateManager" where
  "startUpdateCheckWorker s =
     (let s1 = emit startedUpdateCheck s; w = nextId s1 in
      s1\<lparr>nextId := Suc w, threads := threads s1 @ [w], workers := workers s1 @ [w],
         actions := actions s1 @ [ThreadStart w]\<rparr>)"

definition checkForUpdate :: "UpdateManager \<Rightarrow> UpdateManager" where
  "checkForUpdate s = startUpdateCheckWorker (timer_stop s)"

text \<open>
  \<open>onWorkerFinished()\<close>. \<open>this->sender()\<close> is null when the slot is called directly, some
  other \<open>QObject\<close>, or a worker; the \<open>dynamic_cast\<close> succeeds for a worker only.
\<close>

datatype sender = NoSender | OtherObject | Worker nat

fun dynamic_cast_UpdateCheckWorker :: "sender \<Rightarrow> nat option" where
  "dynamic_cast_UpdateCheckWorker (Worker w) = Some w"
| "dynamic_cast_UpdateCheckWorker x = None"

definition teardown :: "nat \<Rightarrow> UpdateManager \<Rightarrow> UpdateManager" where
  "teardown w s =
     s\<lparr>workers := removeAll w (workers s),
       deferredDelete := deferredDelete s @ [w],
       actions := actions s @ [ThreadQuit w, ThreadWait w, DeleteWorker w, ThreadDeleteLater w]\<rparr>"

definition setLastUpdateCheckDateTime :: "int \<Rightarrow> UpdateManager \<Rightarrow> UpdateManager" where
  "setLastUpdateCheckDateTime t s =
     s\<lparr>lastUpdateCheckDateTime := DateTime t,
       actions := actions s @ [SetLastUpdateCheckDateTime t]\<rparr>"

definition onWorkerFinished :: "sender \<Rightarrow> int \<Rightarrow> UpdateManager \<Rightarrow> slot_result" where
  "onWorkerFinished sndr now s =
     (case dynamic_cast_UpdateCheckWorker sndr of
        None \<Rightarrow> Inl (InternalErrorWhileChecking, s)
      | Some w \<Rightarrow>
          Inr (timer_start kUpdateCheckIntervalMs
                (setLastUpdateCheckDateTime now
                  (emit finishedUpdateCheck (teardown w s)))))"

text \<open>The three outcome slots.\<close>

definition onWorkerUpdateIsAvailable :: "SpLatestVersionInfo \<Rightarrow> UpdateManager \<Rightarrow> slot_result" where
  "onWorkerUpdateIsAvailable latestVersionInfo s =
     (case latestVersionInfo of
        None \<Rightarrow> Inl (LatestVersionInfoIsNull, s)
      | Some v \<Rightarrow>
          Inr (s\<lparr>actions := actions s @
                 [DebugLogAddInfo (versionMajor v) (versionMinor v),
                  Emit (updateIsAvailable v),
                  UpdateDialogExec v]\<rparr>))"

definition onWorkerNoUpdateIsAvailable :: "UpdateManager \<Rightarrow> UpdateManager" where
  "onWorkerNoUpdateIsAvailable s = emit noUpdateIsAvailable s"

definition onWorkerError :: "string \<Rightarrow> UpdateManager \<Rightarrow> UpdateManager" where
  "onWorkerError error s = emit updateCheckFailed s"

text \<open>
  The event loop destroys the objects on which \<open>deleteLater()\<close> was called once control has
  returned to it, that is, after the slot that made the call has returned.
\<close>

definition processDeferredDeletes :: "UpdateManager \<Rightarrow> UpdateManager" where
  "processDeferredDeletes s =
     s\<lparr>threads := filter (\<lambda>t. t \<notin> set (deferredDelete s)) (threads s), deferredDelete := []\<rparr>"

subsection \<open>The update-check worker and one whole check\<close>

text \<open>
  Modelled from the spec: \<open>UpdateCheckWorker\<close> (its source is not part of the excerpt). The
  worker runs once and reports exactly one of three outcomes, update available (with the
  version information), no update available, or error (with a message), and then signals
  completion. The signal for an available update has a shared pointer as its parameter, so
  \<open>UpdateAvailable None\<close> can be written down; the outcomes of the worker's contract are
  \<open>UpdateAvailable (Some v)\<close>, \<open>NoUpdateAvailable\<close> and \<open>CheckError m\<close>.
\<close>

datatype outcome =
    UpdateAvailable SpLatestVersionInfo
  | NoUpdateAvailable
  | CheckError string

datatype worker_signal =
    worker_updateIsAvailable SpLatestVersionInfo
  | worker_noUpdateIsAvailable
  | worker_error string
  | worker_finished

text \<open>
  Modelled from the spec: \<open>UpdateCheckWorker::run()\<close>, of which only the signals it emits are
  known: the one outcome, then \<open>finished\<close>.
\<close>

fun worker_run :: "outcome \<Rightarrow> worker_signal list" where
  "worker_run (UpdateAvailable v) = [worker_updateIsAvailable v, worker_finished]"
| "worker_run NoUpdateAvailable = [worker_noUpdateIsAvailable, worker_finished]"
| "worker_run (CheckError m) = [worker_error m, worker_finished]"

text \<open>
  The four \<open>connect\<close> calls of \<open>startUpdateCheckWorker\<close>: which slot a signal of worker \<open>w\<close>
  runs. The signals cross from the worker's thread to the manager's, so they are delivered
  one after the other, in the order they were emitted; an exception leaving a slot ends the
  delivery. \<open>UpdateDialog::exec()\<close> runs an event loop of its own, in which the completion
  signal may already be delivered; the trace records each call at the point where the source
  makes it, so the dialog stands before the completion in either case.
\<close>

fun deliver :: "nat \<Rightarrow> int \<Rightarrow> worker_signal \<Rightarrow> UpdateManager \<Rightarrow> slot_result" where
  "deliver w now worker_finished s = onWorkerFinished (Worker w) now s"
| "deliver w now (worker_updateIsAvailable v) s = onWorkerUpdateIsAvailable v s"
| "deliver w now worker_noUpdateIsAvailable s = Inr (onWorkerNoUpdateIsAvailable s)"
| "deliver w now (worker_error m) s = Inr (onWorkerError m s)"

fun deliver_all :: "nat \<Rightarrow> int \<Rightarrow> worker_signal list \<Rightarrow> UpdateManager \<Rightarrow> slot_result" where
  "deliver_all w now [] s = Inr s"
| "deliver_all w now (x # xs) s =
     (case deliver w now x s of
        Inl e \<Rightarrow> Inl e
      | Inr s' \<Rightarrow> deliver_all w now xs s')"

text \<open>
  One check: \<open>checkForUpdate()\<close>, then the signals of the worker it started; \<open>now\<close> is the
  time at which the completion is processed.
\<close>

definition run_check :: "outcome \<Rightarrow> int \<Rightarrow> UpdateManager \<Rightarrow> slot_result" where
  "run_check oc now s = deliver_all (nextId s) now (worker_run oc) (checkForUpdate s)"

text \<open>The part of the trace that was appended after state \<open>s\<close>.\<close>

definition new_actions :: "UpdateManager \<Rightarrow> UpdateManager \<Rightarrow> action list" where
  "new_actions s s' = drop (length (actions s)) (actions s')"

fun is_outcome_notification :: "action \<Rightarrow> bool" where
  "is_outcome_notification (Emit (updateIsAvailable v)) = True"
| "is_outcome_notification (Emit noUpdateIsAvailable) = True"
| "is_outcome_notification (Emit updateCheckFailed) = True"
| "is_outcome_notification a = False"

text \<open>A sequence of values delivered to the preference-change handler, each with its time.\<close>

fun toggles :: "(bool \<times> int) list \<Rightarrow> UpdateManager \<Rightarrow> UpdateManager" where
  "toggles [] s = s"
| "toggles ((enabled, now) # xs) s = toggles xs (onAutoCheckForUpdateChanged enabled now s)"

subsection \<open>Project globals\<close>

text \<open>
  \<open>clipboardManagerPtr\<close> is the \<open>std::unique_ptr\<close> of the anonymous namespace: \<open>None\<close> is
  \<open>nullptr\<close>, \<open>Some i\<close> owns the instance made by the \<open>i\<close>-th construction (counted from 0).
  \<open>constructions\<close> counts the \<open>ClipboardManagerDefault\<close> objects made so far.
  \<open>clipboardManager()\<close> returns the instance it refers to and the new global state.
\<close>

record Globals =
  clipboardManagerPtr :: "nat option"
  constructions :: nat

definition make_unique_ClipboardManagerDefault :: "Globals \<Rightarrow> Globals" where
  "make_unique_ClipboardManagerDefault g =
     g\<lparr>clipboardManagerPtr := Some (constructions g), constructions := Suc (constructions g)\<rparr>"

definition clipboardManager :: "Globals \<Rightarrow> nat \<times> Globals" where
  "clipboardManager g =
     (case clipboardManagerPtr g of
        None \<Rightarrow> (constructions g, make_unique_ClipboardManagerDefault g)
      | Some p \<Rightarrow> (p, g))"

definition program_start :: Globals where
  "program_start = \<lparr>clipboardManagerPtr = None, constructions = 0\<rparr>"

text \<open>\<open>n\<close> calls in a row: the references returned, in order, and the final state.\<close>

fun clipboardManager_calls :: "nat \<Rightarrow> Globals \<Rightarrow> nat list \<times> Globals" where
  "clipboardManager_calls 0 g = ([], g)"
| "clipboardManager_calls (Suc n) g =
     (let (p, g1) = clipboardManager g; (ps, g2) = clipboardManager_calls n g1
      in (p # ps, g2))"

text \<open>
  What the path helpers read from outside this file: the two mode flags of
  \<open>BeeftextUtils\<close>, two values of Qt, two preferences, and Qt's
  \<open>QDir(dir).absoluteFilePath(fileName)\<close> as a function of \<open>dir\<close> and \<open>fileName\<close> (it depends
  on the current directory and on Qt's cleaning of \<open>dir\<close>, neither of which is in this file).
\<close>

record Environment =
  absoluteFilePath :: "string \<Rightarrow> string \<Rightarrow> string"
  isInPortableMode :: bool
  usePortableAppsFolderLayout :: bool
  applicationDirPath :: string
  appLocalDataLocation :: string
  useCustomBackupLocation :: bool
  customBackupLocation :: string

definition portableModeDataFolderPath :: "Environment \<Rightarrow> string" where
  "portableModeDataFolderPath e =
     (if usePortableAppsFolderLayout e
      then absoluteFilePath e (applicationDirPath e) ''../../Data/settings''
      else absoluteFilePath e (applicationDirPath e) ''Data'')"

definition appDataDir :: "Environment \<Rightarrow> string" where
  "appDataDir e =
     (if isInPortableMode e then portableModeDataFolderPath e else appLocalDataLocation e)"

definition defaultBackupFolderPath :: "Environment \<Rightarrow> string" where
  "defaultBackupFolderPath e = absoluteFilePath e (appDataDir e) ''Backup''"

definition backupFolderPath :: "Environment \<Rightarrow> string" where
  "backupFolderPath e =
     (let defaultPath = defaultBackupFolderPath e in
      if \<not> useCustomBackupLocation e then defaultPath
      else let customPath = customBackupLocation e in
           if customPath = [] then defaultPath else customPath)"

section \<open>Properties\<close>

subsection \<open>Auxiliary facts\<close>

lemma qMax_max: "qMax a b = max a b"
  by (simp add: qMax_def max_def)

text \<open>Inside their ranges the two reductions change nothing.\<close>

lemma to_qint64_id: "- (2 ^ 63) \<le> x \<Longrightarrow> x < 2 ^ 63 \<Longrightarrow> to_qint64 x = x"
  by (simp add: to_qint64_def)

lemma to_int32_id: "- (2 ^ 31) \<le> x \<Longrightarrow> x < 2 ^ 31 \<Longrightarrow> to_int32 x = x"
  by (simp add: to_int32_def)

lemma to_int32_kUpdateCheckIntervalMs:
  "to_int32 kUpdateCheckIntervalMs = kUpdateCheckIntervalMs"
  by (simp add: to_int32_def kUpdateCheckIntervalMs_def)

lemma to_int32_kLaunchCheckDelayMs:
  "to_int32 kLaunchCheckDelayMs = kLaunchCheckDelayMs"
  by (simp add: to_int32_def kLaunchCheckDelayMs_def)

lemma to_int32_numerals:
  "to_int32 86400000 = 86400000" "to_int32 1000 = 1000"
  by (simp_all add: to_int32_def)

lemmas slot_defs =
  onWorkerFinished_def onWorkerUpdateIsAvailable_def onWorkerNoUpdateIsAvailable_def
  onWorkerError_def checkForUpdate_def startUpdateCheckWorker_def teardown_def
  setLastUpdateCheckDateTime_def timer_stop_def timer_start_def emit_def Let_def
  to_int32_kUpdateCheckIntervalMs to_int32_kLaunchCheckDelayMs to_int32_numerals

text \<open>
  While the time from now until 24 hours after the last check fits the 32-bit \<open>int\<close> of
  \<open>QTimer::start\<close>, the timer is armed with the larger of the short delay and that time, and
  with the short delay when no check is recorded.
\<close>

lemma delay_to_next_check_within_int:
  assumes "- (2 ^ 63) \<le> lastCheck + 86400000" and "lastCheck + 86400000 < 2 ^ 63"
    and "- (2 ^ 63) \<le> lastCheck + 86400000 - now" and "lastCheck + 86400000 - now < 2 ^ 31"
  shows "timer (onAutoCheckForUpdateChanged True now (s\<lparr>lastUpdateCheckDateTime := DateTime lastCheck\<rparr>))
           = Some (max 1000 (lastCheck + 86400000 - now))"
    and "timer (onAutoCheckForUpdateChanged True now (s\<lparr>lastUpdateCheckDateTime := NullDateTime\<rparr>))
           = Some 1000"
proof -
  have a: "to_qint64 (lastCheck + 86400000) = lastCheck + 86400000"
    using assms(1,2) by (rule to_qint64_id)
  have b: "to_qint64 (lastCheck + 86400000 - now) = lastCheck + 86400000 - now"
    using assms(3,4) by (intro to_qint64_id) simp_all
  have c: "to_int32 (max 1000 (lastCheck + 86400000 - now)) = max 1000 (lastCheck + 86400000 - now)"
    using assms(4) by (intro to_int32_id) simp_all
  show "timer (onAutoCheckForUpdateChanged True now (s\<lparr>lastUpdateCheckDateTime := DateTime lastCheck\<rparr>))
           = Some (max 1000 (lastCheck + 86400000 - now))"
    by (simp add: onAutoCheckForUpdateChanged_def Let_def timer_stop_def timer_start_def
          msSecsToNextCheck_def qMax_max kLaunchCheckDelayMs_def kUpdateCheckIntervalMs_def a b c)
  show "timer (onAutoCheckForUpdateChanged True now (s\<lparr>lastUpdateCheckDateTime := NullDateTime\<rparr>))
           = Some 1000"
    by (simp add: onAutoCheckForUpdateChanged_def Let_def timer_stop_def timer_start_def
          msSecsToNextCheck_def to_int32_def kLaunchCheckDelayMs_def)
qed

lemma timer_onAutoCheck:
  "isActive (onAutoCheckForUpdateChanged enabled now s) = enabled"
  by (simp add: onAutoCheckForUpdateChanged_def Let_def timer_stop_def timer_start_def isActive_def)

lemma toggles_append:
  "toggles (xs @ ys) s = toggles ys (toggles xs s)"
  by (induction xs arbitrary: s) auto

text \<open>
  One whole check, for each of the three outcomes of the worker's contract, and for the
  signal with a null version information, at which the slot throws.
\<close>

lemma run_check_NoUpdateAvailable:
  "run_check NoUpdateAvailable now s =
     Inr (timer_start kUpdateCheckIntervalMs
           (setLastUpdateCheckDateTime now
             (emit finishedUpdateCheck
               (teardown (nextId s) (emit noUpdateIsAvailable (checkForUpdate s))))))"
  by (simp add: run_check_def onWorkerFinished_def onWorkerNoUpdateIsAvailable_def)

lemma run_check_CheckError:
  "run_check (CheckError m) now s =
     Inr (timer_start kUpdateCheckIntervalMs
           (setLastUpdateCheckDateTime now
             (emit finishedUpdateCheck
               (teardown (nextId s) (emit updateCheckFailed (checkForUpdate s))))))"
  by (simp add: run_check_def onWorkerFinished_def onWorkerError_def)

lemma run_check_UpdateAvailable_Some:
  "run_check (UpdateAvailable (Some v)) now s =
     Inr (timer_start kUpdateCheckIntervalMs
           (setLastUpdateCheckDateTime now
             (emit finishedUpdateCheck
               (teardown (nextId s)
                 ((checkForUpdate s)\<lparr>actions := actions (checkForUpdate s) @
                    [DebugLogAddInfo (versionMajor v) (versionMinor v),
                     Emit (updateIsAvailable v), UpdateDialogExec v]\<rparr>)))))"
  by (simp add: run_check_def onWorkerFinished_def onWorkerUpdateIsAvailable_def)

lemma run_check_UpdateAvailable_None:
  "run_check (UpdateAvailable None) now s = Inl (LatestVersionInfoIsNull, checkForUpdate s)"
  by (simp add: run_check_def onWorkerUpdateIsAvailable_def)

lemma clipboardManager_stores_result:
  "clipboardManagerPtr (snd (clipboardManager g)) = Some (fst (clipboardManager g))"
  by (simp add: clipboardManager_def make_unique_ClipboardManagerDefault_def split: option.splits)

lemma clipboardManager_again:
  "clipboardManagerPtr g = Some p \<Longrightarrow> clipboardManager g = (p, g)"
  by (simp add: clipboardManager_def)

lemma clipboardManager_calls_initialised:
  "clipboardManagerPtr g = Some p \<Longrightarrow> clipboardManager_calls n g = (replicate n p, g)"
  by (induction n) (simp_all add: clipboardManager_again)

subsection \<open>Scheduling\<close>

text \<open>
  Claim C1. The claim is that the timer is armed with the short delay of 1000 ms if the
  last-check timestamp is null, and otherwise with the larger of the short delay and the
  time from now until 24 hours after the last check, never with less than the short delay.
  The handler computes that value as a \<open>qint64\<close> and hands it to \<open>QTimer::start(int)\<close>, where
  it is cut to 32 bits. With a last check recorded 30 days after the current time (a clock
  that was set back), the computed delay is 2678400000 ms, and the timer receives
  -1616567296: less than the short delay, and not the remaining time. The constructor goes
  the same way.
\<close>

theorem far_future_last_check_wraps_delay:
  "msSecsToNextCheck (DateTime 2592000000) 0 = 2678400000
   \<and> timer (onAutoCheckForUpdateChanged True 0 (constructed (DateTime 2592000000)))
       = Some (- 1616567296)
   \<and> timer (UpdateManager_ctor True (DateTime 2592000000) 0) = Some (- 1616567296)
   \<and> - 1616567296 < kLaunchCheckDelayMs
   \<and> max kLaunchCheckDelayMs (2592000000 + kUpdateCheckIntervalMs - 0) = 2678400000"
proof -
  have delay: "msSecsToNextCheck (DateTime 2592000000) 0 = 2678400000"
    by (simp add: msSecsToNextCheck_def qMax_def to_qint64_def
          kLaunchCheckDelayMs_def kUpdateCheckIntervalMs_def)
  have narrowed: "to_int32 2678400000 = - 1616567296"
    by (simp add: to_int32_def)
  have handler: "timer (onAutoCheckForUpdateChanged True 0 (constructed (DateTime 2592000000)))
                   = Some (- 1616567296)"
    by (simp add: onAutoCheckForUpdateChanged_def Let_def timer_stop_def timer_start_def
          constructed_def delay narrowed)
  show ?thesis
    using delay handler
    by (simp add: UpdateManager_ctor_def kLaunchCheckDelayMs_def kUpdateCheckIntervalMs_def)
qed

text \<open>
  Claim C2. After any sequence of values delivered to the preference-change handler, from
  any state, the timer is armed exactly if the last value delivered was \<open>true\<close>. A newly
  constructed manager has its timer disarmed before the constructor evaluates the
  preference, and armed exactly if the preference is set once the constructor has returned.
\<close>

theorem timer_armed_iff_last_toggle:
  "isActive (toggles (xs @ [(enabled, now)]) s) = enabled
   \<and> isActive (constructed lastCheck) = False
   \<and> isActive (UpdateManager_ctor autoCheck lastCheck now0) = autoCheck
   \<and> isActive (toggles (xs @ [(enabled, now)]) (UpdateManager_ctor autoCheck lastCheck now0)) = enabled"
  by (simp add: toggles_append timer_onAutoCheck UpdateManager_ctor_def)
     (simp add: constructed_def isActive_def)

subsection \<open>Completion of a check\<close>

text \<open>
  Claim C3. When the completion of a worker is processed, the last-check timestamp becomes
  the completion time and the timer is armed with the full interval of 24 hours. This holds
  for a check that reported an update, no update or an error alike; the check that reported
  an error and the one that reported no update end in states that differ only in the
  notification that was emitted.
\<close>

theorem completion_persists_and_rearms:
  "(case onWorkerFinished (Worker w) now s of
      Inl x \<Rightarrow> False
    | Inr s' \<Rightarrow> lastUpdateCheckDateTime s' = DateTime now
               \<and> timer s' = Some kUpdateCheckIntervalMs)
   \<and> kUpdateCheckIntervalMs = 24 * 60 * 60 * 1000
   \<and> (case run_check (UpdateAvailable (Some v)) now s of
        Inl x \<Rightarrow> False
      | Inr s' \<Rightarrow> lastUpdateCheckDateTime s' = DateTime now
                 \<and> timer s' = Some kUpdateCheckIntervalMs)
   \<and> (case run_check NoUpdateAvailable now s of
        Inl x \<Rightarrow> False
      | Inr s' \<Rightarrow> lastUpdateCheckDateTime s' = DateTime now
                 \<and> timer s' = Some kUpdateCheckIntervalMs)
   \<and> (case run_check (CheckError m) now s of
        Inl x \<Rightarrow> False
      | Inr s' \<Rightarrow> lastUpdateCheckDateTime s' = DateTime now
                 \<and> timer s' = Some kUpdateCheckIntervalMs)
   \<and> (case (run_check (CheckError m) now s, run_check NoUpdateAvailable now s) of
        (Inr a, Inr b) \<Rightarrow>
           a\<lparr>actions := []\<rparr> = b\<lparr>actions := []\<rparr>
           \<and> new_actions s a =
               map (\<lambda>x. if x = Emit noUpdateIsAvailable then Emit updateCheckFailed else x)
                 (new_actions s b)
      | _ \<Rightarrow> False)"
  by (simp add: run_check_NoUpdateAvailable run_check_CheckError run_check_UpdateAvailable_Some
        new_actions_def slot_defs kUpdateCheckIntervalMs_def)

text \<open>
  Claim C4. The claim is that a check in flight while auto-check is switched off does not
  leave the timer armed when it completes. The program arms it: the manager is constructed
  with auto-check on, a check starts, the preference handler receives \<open>false\<close> (which stops
  the timer), and the completion of the check arms the timer again for 24 hours.
\<close>

theorem disabled_in_flight_check_rearms:
  "deliver_all 0 2000 (worker_run NoUpdateAvailable)
     (onAutoCheckForUpdateChanged False 500
        (checkForUpdate (UpdateManager_ctor True NullDateTime 0)))
   = Inr \<lparr>timer = Some 86400000, singleShot = True,
          lastUpdateCheckDateTime = DateTime 2000,
          workers = [], threads = [0], deferredDelete = [0], nextId = 1,
          actions = [TimerStop, TimerStart 1000,
                     TimerStop, Emit startedUpdateCheck, ThreadStart 0,
                     TimerStop,
                     Emit noUpdateIsAvailable,
                     ThreadQuit 0, ThreadWait 0, DeleteWorker 0, ThreadDeleteLater 0,
                     Emit finishedUpdateCheck, SetLastUpdateCheckDateTime 2000,
                     TimerStart 86400000]\<rparr>"
  by (simp add: UpdateManager_ctor_def constructed_def onAutoCheckForUpdateChanged_def
        msSecsToNextCheck_def slot_defs kUpdateCheckIntervalMs_def kLaunchCheckDelayMs_def)

text \<open>
  Claim C5. \<open>checkForUpdate()\<close>, in any state, first stops the timer and then starts a check:
  it emits the check-started notification and starts a new worker thread. Nothing guards
  against a check already in progress: a second call starts a second worker beside the first.
\<close>

theorem checkForUpdate_disarms_then_starts:
  "timer (checkForUpdate s) = None
   \<and> new_actions s (checkForUpdate s) = [TimerStop, Emit startedUpdateCheck, ThreadStart (nextId s)]
   \<and> workers (checkForUpdate s) = workers s @ [nextId s]
   \<and> threads (checkForUpdate s) = threads s @ [nextId s]
   \<and> workers (checkForUpdate (checkForUpdate s)) = workers s @ [nextId s, Suc (nextId s)]
   \<and> new_actions s (checkForUpdate (checkForUpdate s)) =
        [TimerStop, Emit startedUpdateCheck, ThreadStart (nextId s),
         TimerStop, Emit startedUpdateCheck, ThreadStart (Suc (nextId s))]"
proof -
  have once: "checkForUpdate t =
      t\<lparr>timer := None, nextId := Suc (nextId t), threads := threads t @ [nextId t],
        workers := workers t @ [nextId t],
        actions := actions t @ [TimerStop, Emit startedUpdateCheck, ThreadStart (nextId t)]\<rparr>"
    for t
    by (simp add: checkForUpdate_def startUpdateCheckWorker_def timer_stop_def emit_def Let_def)
  have twice: "workers (checkForUpdate (checkForUpdate s)) = workers s @ [nextId s, Suc (nextId s)]
      \<and> actions (checkForUpdate (checkForUpdate s)) =
          actions s @ [TimerStop, Emit startedUpdateCheck, ThreadStart (nextId s),
                       TimerStop, Emit startedUpdateCheck, ThreadStart (Suc (nextId s))]"
    by (simp add: once [of "checkForUpdate s"]) (simp add: once)
  show ?thesis
    using twice by (simp add: once new_actions_def)
qed


subsection \<open>Errors\<close>

text \<open>
  Claim C6. If the sender of the completion signal is not an update-check worker, the
  completion slot throws and the state is the one it was called in: no teardown, no
  timestamp, no timer. If the update-available slot receives a null version information, it
  throws and the state is the one it was called in: no notification. The error outcome of
  the worker throws nothing: the check-failed notification is emitted, and the completion
  that follows arms the timer as usual.
\<close>

theorem consistency_failures_throw_error_outcome_absorbed:
  "onWorkerFinished NoSender now s = Inl (InternalErrorWhileChecking, s)
   \<and> onWorkerFinished OtherObject now s = Inl (InternalErrorWhileChecking, s)
   \<and> onWorkerUpdateIsAvailable None s = Inl (LatestVersionInfoIsNull, s)
   \<and> onWorkerError m s = s\<lparr>actions := actions s @ [Emit updateCheckFailed]\<rparr>
   \<and> (case run_check (CheckError m) now s of
        Inl x \<Rightarrow> False
      | Inr s' \<Rightarrow> timer s' = Some kUpdateCheckIntervalMs
                 \<and> filter is_outcome_notification (new_actions s s') = [Emit updateCheckFailed])"
proof (intro conjI)
  show "onWorkerFinished NoSender now s = Inl (InternalErrorWhileChecking, s)"
    and "onWorkerFinished OtherObject now s = Inl (InternalErrorWhileChecking, s)"
    by (simp_all add: onWorkerFinished_def)
  show "onWorkerUpdateIsAvailable None s = Inl (LatestVersionInfoIsNull, s)"
    by (simp add: onWorkerUpdateIsAvailable_def)
  show "onWorkerError m s = s\<lparr>actions := actions s @ [Emit updateCheckFailed]\<rparr>"
    by (simp add: onWorkerError_def emit_def)
  show "case run_check (CheckError m) now s of
          Inl x \<Rightarrow> False
        | Inr s' \<Rightarrow> timer s' = Some kUpdateCheckIntervalMs
                   \<and> filter is_outcome_notification (new_actions s s') = [Emit updateCheckFailed]"
    by (simp add: run_check_CheckError new_actions_def slot_defs)
qed

text \<open>
  Claim C7. The check-failed notification carries no payload: the slot emits the same
  notification for every message of the worker, and the message is dropped.
\<close>

theorem check_failed_carries_no_message:
  "onWorkerError error s = emit updateCheckFailed s
   \<and> new_actions s (onWorkerError error s) = [Emit updateCheckFailed]
   \<and> onWorkerError error s = onWorkerError error' s"
  by (simp add: onWorkerError_def emit_def new_actions_def)

text \<open>
  The claim as first stated, that the notification conveys the worker's message, fails: two
  different messages lead to the same emitted notification and the same state.
\<close>

theorem check_failed_drops_message_counterexample:
  "''timeout'' \<noteq> ''host not found''
   \<and> onWorkerError ''timeout'' (constructed NullDateTime)
     = onWorkerError ''host not found'' (constructed NullDateTime)
   \<and> new_actions (constructed NullDateTime) (onWorkerError ''timeout'' (constructed NullDateTime))
     = [Emit updateCheckFailed]"
  by (simp add: onWorkerError_def emit_def new_actions_def constructed_def)

subsection \<open>Project globals\<close>

text \<open>
  Claim C8. \<open>backupFolderPath()\<close> returns the custom location exactly when the
  use-custom-location preference is set and the custom location is not empty; in every
  other case it returns the default backup folder, which is \<open>Backup\<close> inside the
  application data directory.
\<close>

theorem backupFolderPath_default_or_custom:
  "backupFolderPath e =
     (if useCustomBackupLocation e \<and> customBackupLocation e \<noteq> []
      then customBackupLocation e else defaultBackupFolderPath e)
   \<and> defaultBackupFolderPath e = absoluteFilePath e (appDataDir e) ''Backup''
   \<and> backupFolderPath (e\<lparr>useCustomBackupLocation := False\<rparr>) = defaultBackupFolderPath e
   \<and> backupFolderPath (e\<lparr>useCustomBackupLocation := True, customBackupLocation := []\<rparr>)
       = defaultBackupFolderPath e
   \<and> backupFolderPath (e\<lparr>useCustomBackupLocation := True, customBackupLocation := c # cs\<rparr>)
       = c # cs"
  by (simp add: backupFolderPath_def Let_def defaultBackupFolderPath_def appDataDir_def
        portableModeDataFolderPath_def)

text \<open>
  Claim C10. \<open>clipboardManager()\<close> is an idempotent lazy initialiser. After any call the
  stored pointer is not null and refers to the instance returned; a further call returns the
  same instance and changes nothing; any number of calls in a row return one and the same
  instance; and from the start of the program exactly one instance is ever constructed.
\<close>

theorem clipboardManager_lazy_singleton:
  "clipboardManagerPtr (snd (clipboardManager g)) = Some (fst (clipboardManager g))
   \<and> clipboardManager (snd (clipboardManager g)) = clipboardManager g
   \<and> clipboardManager_calls (Suc n) g =
       (replicate (Suc n) (fst (clipboardManager g)), snd (clipboardManager g))
   \<and> clipboardManagerPtr program_start = None
   \<and> constructions program_start = 0
   \<and> constructions (snd (clipboardManager program_start)) = 1
   \<and> constructions (snd (clipboardManager_calls (Suc n) program_start)) = 1"
proof -
  obtain p g1 where c: "clipboardManager g = (p, g1)"
    by (cases "clipboardManager g")
  have stored: "clipboardManagerPtr g1 = Some p"
    using clipboardManager_stores_result [of g] c by simp
  have again: "clipboardManager g1 = (p, g1)"
    using stored by (rule clipboardManager_again)
  have calls: "clipboardManager_calls (Suc n) g = (replicate (Suc n) p, g1)"
    using c clipboardManager_calls_initialised [OF stored, of n] by simp
  have first: "constructions (snd (clipboardManager program_start)) = 1"
    by (simp add: clipboardManager_def program_start_def make_unique_ClipboardManagerDefault_def)
  show ?thesis
  proof (intro conjI)
    show "clipboardManagerPtr (snd (clipboardManager g)) = Some (fst (clipboardManager g))"
      using c stored by simp
    show "clipboardManager (snd (clipboardManager g)) = clipboardManager g"
      using c again by simp
    show "clipboardManager_calls (Suc n) g =
            (replicate (Suc n) (fst (clipboardManager g)), snd (clipboardManager g))"
      using c calls by simp
    show "clipboardManagerPtr program_start = None" "constructions program_start = 0"
      by (simp_all add: program_start_def)
    show "constructions (snd (clipboardManager program_start)) = 1"
      by (rule first)
    show "constructions (snd (clipboardManager_calls (Suc n) program_start)) = 1"
    proof -
      obtain q h where d: "clipboardManager program_start = (q, h)"
        by (cases "clipboardManager program_start")
      have "clipboardManagerPtr h = Some q"
        using clipboardManager_stores_result [of program_start] d by simp
      then have "clipboardManager_calls n h = (replicate n q, h)"
        by (rule clipboardManager_calls_initialised)
      then show ?thesis using d first by simp
    qed
  qed
qed

end
